theory Spec2Isabelle
  imports Complex_Main
begin

section \<open>Python and NumPy primitives used by \<open>naplib/encoding/trf.py\<close>\<close>

text \<open>
  Exceptions are values. \<open>StateError\<close> is the \<open>ValueError\<close> whose message is
  "Must call fit() first ..." or "Must call .fit() before ..."; \<open>ConfigError\<close> is the
  \<open>ValueError\<close> raised by \<open>TRF.__init__\<close>; \<open>DimError\<close> is the \<open>ValueError\<close> of \<open>score\<close> for a
  target of the wrong dimensionality; \<open>ShapeError\<close> is the \<open>ValueError\<close> NumPy raises
  when operands cannot be broadcast, assigned or concatenated (also "need at least one
  array to concatenate"). An exception raised inside the \<open>mne\<close> library, whose code is
  not part of the repository, is \<open>Lib e\<close>.
\<close>

datatype lib_error = LinAlgError | LibValueError

datatype py_error =
    ConfigError
  | StateError
  | DimError
  | ShapeError
  | IndexError
  | KeyError
  | TypeError
  | AttributeError
  | AssertionError
  | OverflowError
  | NanToIntError
  | ZeroDivisionError
  | Lib lib_error

text \<open>Python's \<open>round(x)\<close> and \<open>np.round\<close>: to the nearest integer, a tie to the even one.\<close>

definition py_round :: "real \<Rightarrow> int" where
  "py_round x =
     (let f = \<lfloor>x\<rfloor>; d = x - of_int f
      in if d < 1 / 2 then f
         else if 1 / 2 < d then f + 1
         else if even f then f else f + 1)"

text \<open>Python's \<open>int(x)\<close> on a finite float: truncation toward zero.\<close>

definition py_int :: "real \<Rightarrow> int" where
  "py_int x = (if 0 \<le> x then \<lfloor>x\<rfloor> else \<lceil>x\<rceil>)"

text \<open>\<open>np.arange(a, b)\<close> on integers.\<close>

definition np_arange :: "int \<Rightarrow> int \<Rightarrow> int list" where
  "np_arange a b = [a..b - 1]"

section \<open>Double-precision arithmetic\<close>

text \<open>
  A Python float is an IEEE 754 double. A finite double is the real number it denotes,
  and an arithmetic operation on doubles returns the exact result rounded to the
  nearest double, a tie going to the even significand: \<open>a * b\<close> in the source is
  \<open>fl (a * b)\<close> here, and likewise for \<open>+\<close>, \<open>-\<close> and \<open>/\<close>. The doubles with binary exponent
  \<open>e\<close> are the multiples of \<open>2 ^ (e - 52)\<close>; below \<open>2 ^ (-1022)\<close> (the subnormal range)
  the spacing stays \<open>2 ^ (-1074)\<close>. Overflow to infinity (results of magnitude
  \<open>2 ^ 1024\<close> and more) is outside the model. The float arguments of the program
  (\<open>tmin\<close>, \<open>tmax\<close>, \<open>sfreq\<close>, \<open>xval_test_portion\<close>) are doubles: a decimal literal such as
  \<open>0.3\<close> reaches the program as \<open>fl (3 / 10)\<close>.
\<close>

definition expo :: "real \<Rightarrow> int" where
  "expo x = \<lfloor>log 2 \<bar>x\<bar>\<rfloor>"

definition ulp :: "real \<Rightarrow> real" where
  "ulp x = 2 powi (max (expo x) (- 1022) - 52)"

definition fl :: "real \<Rightarrow> real" where
  "fl x = (if x = 0 then 0 else of_int (py_round (x / ulp x)) * ulp x)"

section \<open>Configuration: \<open>TRF.__init__\<close>\<close>

text \<open>
  The \<open>alpha\<close> argument: \<open>None\<close> (the default), one number, or a list of numbers.
\<close>

datatype alpha_arg = AlphaNone | AlphaScalar real | AlphaList "real list"

datatype reg_type = Ridge | Laplacian

datatype scoring = R2 | Corrcoef

record trf_config =
  sfreq :: real
  tmin :: real
  tmax :: real
  reg :: reg_type
  alpha :: "real list"
  xval_test_portion :: real
  fit_intercept :: bool
  scoring_name :: scoring

text \<open>\<open>[round(x, 2) for x in np.logspace(2, 9, 8)]\<close>.\<close>

definition default_alpha :: "real list" where
  "default_alpha = map (\<lambda>k. 10 ^ k) [2, 3, 4, 5, 6, 7, 8, 9]"

definition alpha_candidates :: "alpha_arg \<Rightarrow> real list" where
  "alpha_candidates a =
     (case a of AlphaNone \<Rightarrow> default_alpha | AlphaScalar x \<Rightarrow> [x] | AlphaList xs \<Rightarrow> xs)"

definition TRF_init ::
  "real \<Rightarrow> real \<Rightarrow> real \<Rightarrow> reg_type \<Rightarrow> alpha_arg \<Rightarrow> real \<Rightarrow> bool \<Rightarrow> scoring
     \<Rightarrow> py_error + trf_config" where
  "TRF_init tmin0 tmax0 sfreq0 reg0 alpha0 portion intercept sc =
     (if tmin0 \<ge> tmax0 then Inl ConfigError
      else
        let cfg = \<lparr> sfreq = sfreq0, tmin = tmin0, tmax = tmax0, reg = reg0,
                     alpha = alpha_candidates alpha0, xval_test_portion = portion,
                     fit_intercept = intercept, scoring_name = sc \<rparr>
        in if length (alpha cfg) > 1 \<and> xval_test_portion cfg > 1 / 2 then Inl ConfigError
           else Inr cfg)"

text \<open>
  The properties \<open>_smin\<close> and \<open>_smax\<close>: \<open>int(round(self.tmin * self.sfreq))\<close> and
  \<open>int(round(self.tmax * self.sfreq) + 1)\<close>, each on the double product.
\<close>

definition smin :: "trf_config \<Rightarrow> int" where
  "smin c = py_round (fl (tmin c * sfreq c))"

definition smax :: "trf_config \<Rightarrow> int" where
  "smax c = py_round (fl (tmax c * sfreq c)) + 1"

text \<open>
  \<open>fit\<close> sets \<open>delays_ = _times_to_delays(tmin, tmax, sfreq)\<close>, the library function
  \<open>np.arange(int(np.round(tmin * sfreq)), int(np.round(tmax * sfreq) + 1))\<close> of
  \<open>mne.decoding.receptive_field\<close>; its two bounds are the properties \<open>_smin\<close> and \<open>_smax\<close>.
\<close>

definition times_to_delays :: "trf_config \<Rightarrow> int list" where
  "times_to_delays c = np_arange (smin c) (smax c)"

section \<open>Cross-validation splits: \<open>_xval_time_splits\<close>\<close>






section \<open>Arrays\<close>

text \<open>
  A NumPy array is the nested list of its entries along the axes, the time axis first.
  The targets of one call all have the same number of dimensions (\<open>np.concatenate\<close>
  accepts nothing else): one-dimensional trials \<open>(time)\<close>, two-dimensional trials
  \<open>(time, n_targets)\<close> or three-dimensional trials \<open>(time, n_targets, n_features_y)\<close>.
\<close>

type_synonym arr1 = "real list"
type_synonym arr2 = "real list list"
type_synonym arr3 = "real list list list"
type_synonym arr4 = "real list list list list"

datatype targets = Y1 "arr1 list" | Y2 "arr2 list" | Y3 "arr3 list"

datatype ndarr = A1 arr1 | A2 arr2 | A3 arr3



definition shape2 :: "arr2 \<Rightarrow> nat list" where
  "shape2 m = (case m of [] \<Rightarrow> [0, 0] | r # _ \<Rightarrow> [length m, length r])"

definition shape3 :: "arr3 \<Rightarrow> nat list" where
  "shape3 a = (case a of [] \<Rightarrow> [0, 0, 0] | m # _ \<Rightarrow> length a # shape2 m)"

definition shape4 :: "arr4 \<Rightarrow> nat list" where
  "shape4 a = (case a of [] \<Rightarrow> [0, 0, 0, 0] | m # _ \<Rightarrow> length a # shape3 m)"

section \<open>The boundary taper of \<open>fit\<close>\<close>











section \<open>The library functions of \<open>mne\<close> and the fitted state\<close>

text \<open>
  What \<open>_compute_corrs\<close> returns: \<open>(cov_, x_y_, n_ch_x, X_offset, y_offset)\<close>.
\<close>

record corrs =
  cov :: arr2
  x_y :: arr2
  n_ch_x :: nat
  X_offset :: arr1
  y_offset :: arr1

text \<open>The intercept of an estimator: the float \<open>0.\<close> or an array of offsets.\<close>

datatype intercept = IScalar real | IArray arr1

text \<open>
  A \<open>ReceptiveField\<close> object as far as \<open>TRF\<close> reads and writes it: its coefficient array,
  of three dimensions, which \<open>fit\<close> also stores as \<open>estimator_.coef_\<close>, and the intercept of
  its estimator.
\<close>

record rf_model =
  rf_coef :: arr3
  rf_intercept :: intercept

text \<open>What the property \<open>TRF.coef_\<close> returns: an array of three or of four dimensions.\<close>

datatype coef_arr = C3 arr3 | C4 arr4

text \<open>
  The numerical work is done by functions of \<open>mne.decoding\<close>, which are parameters of
  the model:
  \<^item> \<open>compute_corrs\<close>: \<open>_compute_corrs(X, y, smin, smax, n_jobs, fit_intercept,
    edge_correction=True)\<close>;
  \<^item> \<open>fit_corrs\<close>: \<open>_fit_corrs(cov_, x_y_, n_ch_x, reg_type, alpha, n_ch_x)\<close>;
  \<^item> \<open>offset_intercept\<close>: \<open>y_offset - np.dot(X_offset, coef.sum(-1).T)\<close>;
  \<^item> \<open>rf_fit\<close>: \<open>ReceptiveField.fit(X, y)\<close> on the object that \<open>_get_single_RF_model\<close>
    builds for an alpha, returning the fitted object;
  \<^item> \<open>rf_predict\<close>: \<open>ReceptiveField.predict(X)\<close>;
  \<^item> \<open>col_score\<close>: the score of one output column, \<open>_SCORERS[scoring]\<close> with
    \<open>multioutput='raw_values'\<close> being the list of the columns' scores.
\<close>

record mne =
  compute_corrs :: "trf_config \<Rightarrow> ndarr \<Rightarrow> ndarr \<Rightarrow> lib_error + corrs"
  fit_corrs :: "corrs \<Rightarrow> reg_type \<Rightarrow> real \<Rightarrow> lib_error + arr3"
  offset_intercept :: "corrs \<Rightarrow> coef_arr \<Rightarrow> lib_error + intercept"
  rf_fit :: "trf_config \<Rightarrow> real \<Rightarrow> ndarr \<Rightarrow> ndarr \<Rightarrow> lib_error + rf_model"
  rf_predict :: "trf_config \<Rightarrow> rf_model \<Rightarrow> ndarr \<Rightarrow> lib_error + ndarr"
  col_score :: "scoring \<Rightarrow> arr1 \<Rightarrow> arr1 \<Rightarrow> lib_error + real"

definition lift :: "lib_error + 'a \<Rightarrow> py_error + 'a" where
  "lift r = (case r of Inl e \<Rightarrow> Inl (Lib e) | Inr v \<Rightarrow> Inr v)"

text \<open>
  The attributes that \<open>fit\<close> attaches to the object; \<open>None\<close> is an attribute that does not
  exist (\<open>hasattr\<close> is false). The attributes \<open>valid_samples_\<close> and \<open>estimator_\<close> are written
  by \<open>fit\<close> too, but no method modelled here branches on them: \<open>_delay_and_reshape\<close>
  returns its arguments unchanged, because \<open>estimator_\<close> is always a \<open>TimeDelayingRidge\<close>.
\<close>

record trf =
  ndim_y :: "nat option"
  models :: "rf_model list option"
  delays :: "int list option"

definition unfit :: trf where
  "unfit = \<lparr> ndim_y = None, models = None, delays = None \<rparr>"

text \<open>A loop that stops at the first exception.\<close>

fun sequence :: "('e + 'a) list \<Rightarrow> 'e + 'a list" where
  "sequence [] = Inr []"
| "sequence (r # rs) =
     (case r of
        Inl e \<Rightarrow> Inl e
      | Inr v \<Rightarrow> (case sequence rs of Inl e \<Rightarrow> Inl e | Inr vs \<Rightarrow> Inr (v # vs)))"

fun ndim :: "ndarr \<Rightarrow> nat" where
  "ndim (A1 v) = 1"
| "ndim (A2 m) = 2"
| "ndim (A3 a) = 3"

definition trials_of :: "targets \<Rightarrow> ndarr list" where
  "trials_of y = (case y of Y1 ts \<Rightarrow> map A1 ts | Y2 ts \<Rightarrow> map A2 ts | Y3 ts \<Rightarrow> map A3 ts)"

text \<open>\<open>a.shape[1]\<close> of an array of at least two dimensions.\<close>

definition ncols :: "'a list list \<Rightarrow> nat" where
  "ncols m = (case m of [] \<Rightarrow> 0 | r # _ \<Rightarrow> length r)"

section \<open>The property \<open>coef_\<close>\<close>


section \<open>Scoring: \<open>_score_predictions\<close>\<close>

text \<open>\<open>a.transpose(0, 2, 1).reshape(-1, a.shape[1])\<close> for a three-dimensional \<open>a\<close>.\<close>

definition flatten_outputs :: "arr3 \<Rightarrow> arr2" where
  "flatten_outputs a = concat (map transpose a)"

text \<open>
  \<open>scorer(y_pred, y_true, multioutput='raw_values')\<close>: one score for each column of the
  second argument.
\<close>

definition scorer :: "mne \<Rightarrow> scoring \<Rightarrow> arr2 \<Rightarrow> arr2 \<Rightarrow> py_error + real list" where
  "scorer ext sc p t =
     sequence (map (\<lambda>i. lift (col_score ext sc (map (\<lambda>r. r ! i) p) (map (\<lambda>r. r ! i) t)))
                 [0 ..< ncols t])"

text \<open>
  The body of the loop of \<open>_score_predictions\<close> for one trial: the two assertions, the
  reshaping of three-dimensional arrays, and the scorer. A prediction whose number of
  dimensions is not that of the target cannot be reshaped or scored (\<open>ShapeError\<close>).
\<close>

definition trial_score :: "mne \<Rightarrow> trf_config \<Rightarrow> trf \<Rightarrow> ndarr \<Rightarrow> ndarr \<Rightarrow> py_error + real list" where
  "trial_score ext c st y_pred y_true =
     (case ndim_y st of
        None \<Rightarrow> Inl AttributeError
      | Some d \<Rightarrow>
          if ndim y_true \<noteq> d then Inl AssertionError
          else (case (y_pred, y_true) of
                  (A3 p, A3 t) \<Rightarrow>
                    if ncols (flatten_outputs p) \<noteq> ncols t then Inl AssertionError
                    else scorer ext (scoring_name c) (flatten_outputs p) (flatten_outputs t)
                | (A2 p, A2 t) \<Rightarrow>
                    if ncols p \<noteq> ncols t then Inl AssertionError
                    else scorer ext (scoring_name c) p t
                | _ \<Rightarrow> Inl ShapeError))"

text \<open>
  \<open>np.average(np.concatenate(y_scores, axis=1), axis=1, weights=weights)\<close>, where
  \<open>y_scores\<close> holds one column of scores for each trial.
\<close>

definition np_average :: "real list list \<Rightarrow> real list \<Rightarrow> py_error + real list" where
  "np_average y_scores weights =
     (if y_scores = [] then Inl ShapeError
      else if \<exists>s \<in> set y_scores. length s \<noteq> length (hd y_scores) then Inl ShapeError
      else if length weights \<noteq> length y_scores then Inl ShapeError
      else if sum_list weights = 0 then Inl ZeroDivisionError
      else Inr (map (\<lambda>i. (\<Sum>t \<leftarrow> [0 ..< length y_scores]. weights ! t * (y_scores ! t ! i))
                          / sum_list weights)
                  [0 ..< length (hd y_scores)]))"

definition score_predictions ::
  "mne \<Rightarrow> trf_config \<Rightarrow> trf \<Rightarrow> ndarr list \<Rightarrow> ndarr list \<Rightarrow> real list \<Rightarrow> py_error + real list" where
  "score_predictions ext c st y_preds_list y_true_list weights =
     (case sequence (map (\<lambda>(y_pred, y_true). trial_score ext c st y_pred y_true)
                       (zip y_preds_list y_true_list)) of
        Inl e \<Rightarrow> Inl e
      | Inr y_scores \<Rightarrow> np_average y_scores weights)"

section \<open>\<open>predict\<close>\<close>

text \<open>The entries of an array in C order (\<open>ravel\<close>).\<close>

fun flat :: "ndarr \<Rightarrow> arr1" where
  "flat (A1 v) = v"
| "flat (A2 m) = concat m"
| "flat (A3 a) = concat (concat a)"

text \<open>
  \<open>tmp_pred.reshape(-1, 1)\<close>, used when \<open>ndim_y_\<close> is 2, and
  \<open>tmp_pred.reshape(tmp_pred.shape[0], 1, -1)\<close>, used otherwise.
\<close>

definition reshape_column :: "ndarr \<Rightarrow> arr2" where
  "reshape_column p = map (\<lambda>v. [v]) (flat p)"

definition reshape_single :: "ndarr \<Rightarrow> arr3" where
  "reshape_single p =
     (case p of
        A1 v \<Rightarrow> map (\<lambda>x. [[x]]) v
      | A2 m \<Rightarrow> map (\<lambda>r. [r]) m
      | A3 a \<Rightarrow> map (\<lambda>m. [concat m]) a)"

text \<open>
  \<open>np.concatenate(pieces, axis=1)\<close> for arrays of one number of dimensions (two or
  three): at least one piece, and all of one length along time.
\<close>

definition hstack :: "'a list list list \<Rightarrow> py_error + 'a list list" where
  "hstack pieces =
     (if pieces = [] then Inl ShapeError
      else if \<exists>p \<in> set pieces. length p \<noteq> length (hd pieces) then Inl ShapeError
      else Inr (map (\<lambda>t. concat (map (\<lambda>p. p ! t) pieces)) [0 ..< length (hd pieces)]))"

text \<open>
  The body of the loop of \<open>predict\<close> over the trials, for the trial \<open>x_trial\<close>: every
  model predicts, the predictions are reshaped and then joined along the channel axis.
  Without the attribute \<open>ndim_y_\<close> the first reshaping raises.
\<close>

definition predict_trial :: "mne \<Rightarrow> trf_config \<Rightarrow> trf \<Rightarrow> rf_model list \<Rightarrow> arr2 \<Rightarrow> py_error + ndarr" where
  "predict_trial ext c st ms x_trial =
     (case ndim_y st of
        None \<Rightarrow>
          (case ms of
             [] \<Rightarrow> Inl ShapeError
           | mdl # _ \<Rightarrow>
               (case lift (rf_predict ext c mdl (A2 x_trial)) of
                  Inl e \<Rightarrow> Inl e
                | Inr tmp_pred \<Rightarrow> Inl AttributeError))
      | Some d \<Rightarrow>
          (case sequence (map (\<lambda>mdl. lift (rf_predict ext c mdl (A2 x_trial))) ms) of
             Inl e \<Rightarrow> Inl e
           | Inr preds \<Rightarrow>
               if d = 2 then map_sum id A2 (hstack (map reshape_column preds))
               else map_sum id A3 (hstack (map reshape_single preds))))"

definition predict :: "mne \<Rightarrow> trf_config \<Rightarrow> trf \<Rightarrow> arr2 list \<Rightarrow> py_error + ndarr list" where
  "predict ext c st X =
     (case models st of
        None \<Rightarrow> Inl StateError
      | Some ms \<Rightarrow> sequence (map (predict_trial ext c st ms) X))"

section \<open>\<open>score\<close>\<close>

text \<open>
  \<open>X\<close> and \<open>y\<close> are the two lists of per-trial arrays that \<open>_parse_outstruct_args\<close>
  returns. The weights are the trials' time lengths divided by their sum (Python raises
  \<open>ZeroDivisionError\<close> on a zero sum), or all one.
\<close>

definition duration_weights :: "arr2 list \<Rightarrow> py_error + real list" where
  "duration_weights X =
     (if X \<noteq> [] \<and> (\<Sum>x \<leftarrow> X. length x) = 0 then Inl ZeroDivisionError
      else Inr (map (\<lambda>x. real (length x) / real (\<Sum>x \<leftarrow> X. length x)) X))"

definition score ::
  "mne \<Rightarrow> trf_config \<Rightarrow> trf \<Rightarrow> arr2 list \<Rightarrow> targets \<Rightarrow> bool \<Rightarrow> py_error + real list" where
  "score ext c st X y weight_trial_duration =
     (case models st of
        None \<Rightarrow> Inl StateError
      | Some ms \<Rightarrow>
          (case sequence (map (\<lambda>(x, yy).
                    case ndim_y st of
                      None \<Rightarrow> Inl AttributeError
                    | Some d \<Rightarrow>
                        if ndim yy \<noteq> d then Inl DimError
                        else (case predict ext c st [x] of
                                Inl e \<Rightarrow> Inl e
                              | Inr ps \<Rightarrow> (case ps of [] \<Rightarrow> Inl IndexError | p # _ \<Rightarrow> Inr p)))
                  (zip X (trials_of y))) of
             Inl e \<Rightarrow> Inl e
           | Inr y_preds \<Rightarrow>
               (case (if weight_trial_duration then duration_weights X
                      else Inr (map (\<lambda>x. 1) X)) of
                  Inl e \<Rightarrow> Inl e
                | Inr weights \<Rightarrow> score_predictions ext c st y_preds (trials_of y) weights)))"

section \<open>Cross-validation of the alphas and \<open>fit\<close>\<close>
















section \<open>Shapes, and a stand-in for the library\<close>

text \<open>\<open>data.shape[0]\<close>: the number of time samples.\<close>

definition n_times :: "ndarr \<Rightarrow> nat" where
  "n_times a = (case a of A1 v \<Rightarrow> length v | A2 m \<Rightarrow> length m | A3 b \<Rightarrow> length b)"

definition has_shape3 :: "arr3 \<Rightarrow> nat \<Rightarrow> nat \<Rightarrow> nat \<Rightarrow> bool" where
  "has_shape3 a n1 n2 n3 =
     (length a = n1 \<and> (\<forall>m \<in> set a. length m = n2 \<and> (\<forall>r \<in> set m. length r = n3)))"

definition has_shape4 :: "arr4 \<Rightarrow> nat \<Rightarrow> nat \<Rightarrow> nat \<Rightarrow> nat \<Rightarrow> bool" where
  "has_shape4 a n1 n2 n3 n4 = (length a = n1 \<and> (\<forall>b \<in> set a. has_shape3 b n2 n3 n4))"

text \<open>
  A stand-in for the library, used to run the model on concrete inputs. Its coefficient
  arrays have the shapes that \<open>mne\<close> documents (\<open>(n_outputs, n_features, n_delays)\<close>, with
  one output for a two-dimensional target and one per output feature for a
  three-dimensional one) and every coefficient is the alpha; a prediction is the first
  coefficient at every sample; the score of a column is minus the squared distance of
  the first prediction from the first true value; and the final solve fails for
  \<open>alpha = 0\<close>, as an unregularised solve of a singular system does.
\<close>

definition toy_features :: "ndarr \<Rightarrow> nat" where
  "toy_features X = (case X of A1 v \<Rightarrow> 1 | A2 m \<Rightarrow> ncols m | A3 a \<Rightarrow> length (hd (hd a)))"

definition toy_outputs :: "ndarr \<Rightarrow> nat" where
  "toy_outputs y = (case y of A1 v \<Rightarrow> 1 | A2 m \<Rightarrow> 1 | A3 a \<Rightarrow> length (hd (hd a)))"

definition toy_predict :: "rf_model \<Rightarrow> ndarr \<Rightarrow> ndarr" where
  "toy_predict m X =
     (let v = hd (hd (hd (rf_coef m)))
      in case X of
           A1 xs \<Rightarrow> A1 (map (\<lambda>x. v) xs)
         | A2 rows \<Rightarrow> A2 (map (\<lambda>r. replicate (length (rf_coef m)) v) rows)
         | A3 a \<Rightarrow> A3 (map (\<lambda>e. map (\<lambda>r. replicate (length (rf_coef m)) v) e) a))"

definition toy_mne :: mne where
  "toy_mne =
     \<lparr> compute_corrs = (\<lambda>c X y.
          Inr \<lparr> cov = [],
                x_y = [replicate (toy_features X * length (times_to_delays c)) 0],
                n_ch_x = toy_features X, X_offset = [], y_offset = [] \<rparr>),
       fit_corrs = (\<lambda>cs r a.
          Inr [replicate (n_ch_x cs) (replicate (ncols (x_y cs) div n_ch_x cs) a)]),
       offset_intercept = (\<lambda>cs co. Inr (IScalar 0)),
       rf_fit = (\<lambda>c a X y.
          if a = 0 then Inl LinAlgError
          else Inr \<lparr> rf_coef = replicate (toy_outputs y)
                                  (replicate (toy_features X)
                                     (replicate (length (times_to_delays c)) a)),
                     rf_intercept = IScalar 0 \<rparr>),
       rf_predict = (\<lambda>c m X. Inr (toy_predict m X)),
       col_score = (\<lambda>sc p t. Inr (- ((hd p - hd t) ^ 2))) \<rparr>"

section \<open>Rounding to the nearest double\<close>

































section \<open>The delay set\<close>

lemma length_np_arange: "length (np_arange a b) = nat (b - a)"
  by (simp add: np_arange_def)









section \<open>Construction\<close>

text \<open>
  C8. The constructor fails exactly when \<open>tmin \<ge> tmax\<close>, or more than one alpha candidate
  is given together with a test portion above one half; the error is the configuration
  error, and otherwise the configuration is returned. The default grid has eight
  candidates, a single number one.
\<close>

theorem init_config_error:
  "(case TRF_init tmin0 tmax0 sfreq0 reg0 alpha0 portion intercept sc of
      Inl e \<Rightarrow> e = ConfigError
              \<and> (tmin0 \<ge> tmax0 \<or> (length (alpha_candidates alpha0) > 1 \<and> portion > 1 / 2))
    | Inr c \<Rightarrow> \<not> (tmin0 \<ge> tmax0 \<or> (length (alpha_candidates alpha0) > 1 \<and> portion > 1 / 2))
              \<and> tmin c = tmin0 \<and> tmax c = tmax0 \<and> alpha c = alpha_candidates alpha0
              \<and> xval_test_portion c = portion)
   \<and> length (alpha_candidates AlphaNone) = 8
   \<and> length (alpha_candidates (AlphaScalar a)) = 1"
  by (auto simp add: TRF_init_def Let_def alpha_candidates_def default_alpha_def)

section \<open>Cross-validation splits\<close>


lemma py_int_succ: "- 1 \<le> x \<Longrightarrow> py_int (x + 1) = \<lfloor>x\<rfloor> + 1"
  by (simp add: py_int_def)










end
